theory Spec2Isabelle
  imports Main "HOL-Library.AList" "HOL-Library.Multiset" "HOL-Library.Sublist"
begin

section \<open>Data model\<close>

text \<open>
  The runner manager (\<^verbatim>\<open>manager/runner_manager.py\<close>) works on records that its
  collaborators hand over. The modules declaring them (\<^verbatim>\<open>manager/models.py\<close>,
  \<^verbatim>\<open>manager/cloud_runner_manager.py\<close>, \<^verbatim>\<open>manager/github_runner_manager.py\<close>,
  \<^verbatim>\<open>types_/github.py\<close>, \<^verbatim>\<open>errors.py\<close>) are not part of the sources, so each
  record below holds the attributes the code reads.
\<close>

text \<open>Modelled from the spec: the \<^verbatim>\<open>InstanceID\<close> declaration is missing. It is the
  identifier minted at creation time, carries the reactive flag, and the merged view is
  joined on its derived \<^verbatim>\<open>name\<close>.\<close>

record InstanceID =
  iid_name :: string
  reactive :: bool

text \<open>Modelled from the spec: the enum declarations are missing; the spec gives
  created, active, stopped, error, deleted for the cloud state, healthy and unhealthy
  for the health state.\<close>

datatype CloudRunnerState = CREATED | ACTIVE | DELETED | ERROR | STOPPED

datatype HealthState = HEALTHY | UNHEALTHY

datatype GitHubRunnerState = BUSY | IDLE | OFFLINE

text \<open>A registration record of the coordination service. \<^verbatim>\<open>shr_state\<close> is what
  \<^verbatim>\<open>GitHubRunnerState.from_runner\<close> derives from the record (its status and busy flag);
  the derivation is not in the sources, so the record carries its result.\<close>

record SelfHostedRunner =
  shr_instance_id :: InstanceID
  shr_state :: GitHubRunnerState

record CloudRunnerInstance =
  cri_name :: string
  cri_instance_id :: InstanceID
  cri_health :: HealthState
  cri_state :: CloudRunnerState

record RunnerInstance =
  name :: string
  instance_id :: InstanceID
  health :: HealthState
  github_state :: "GitHubRunnerState option"
  cloud_state :: CloudRunnerState

text \<open>\<^verbatim>\<open>RunnerInstance.__init__\<close>.\<close>

definition RunnerInstance_init ::
  "CloudRunnerInstance \<Rightarrow> SelfHostedRunner option \<Rightarrow> RunnerInstance" where
  "RunnerInstance_init cloud_instance github_info =
     \<lparr> name = cri_name cloud_instance,
       instance_id = cri_instance_id cloud_instance,
       health = cri_health cloud_instance,
       github_state = (case github_info of None \<Rightarrow> None | Some info \<Rightarrow> Some (shr_state info)),
       cloud_state = cri_state cloud_instance \<rparr>"

datatype FlushMode = FLUSH_IDLE | FLUSH_BUSY

text \<open>Per-instance measurement record; the manager reads the instance id and whether
  pre-job data is present.\<close>

record RunnerMetrics =
  rm_instance_id :: InstanceID
  pre_job :: "string option"

subsection \<open>Errors\<close>

text \<open>The exceptions the code raises or handles by name. \<^verbatim>\<open>RunnerError\<close> stands for
  the class and its subclasses, which \<^verbatim>\<open>except RunnerError\<close> catches alike.\<close>

datatype transport_error = TimeoutError | NoValidConnectionsError | SSHException

datatype error =
    RunnerError
  | SshError
  | PullFileError
  | GithubRunnerRemoveError
  | ValueError
  | Transport transport_error
  | OtherError string

text \<open>What \<^verbatim>\<open>ssh_conn.get\<close> raises: one of the three transport exceptions, or another
  \<^verbatim>\<open>OSError\<close>.\<close>

datatype get_error = GetTransport transport_error | GetOSError

subsection \<open>Observable actions\<close>

text \<open>Every call on a collaborator (coordination-service client, cloud runner manager,
  cloud provider, remote shell, metrics storage) and every warning the claims speak of is
  appended to a trace, in program order.\<close>

datatype event =
    GithubGetRunners "GitHubRunnerState list option"
  | CloudGetRunners "CloudRunnerState list option"
  | WarnCloudOnly "string set"
  | WarnGithubOnly "string set"
  | GithubDeleteRunners "SelfHostedRunner list"
  | GithubGetRemovalToken
  | GithubGetRegistrationJittoken InstanceID "string list"
  | GithubJob string
  | IssueEvents InstanceID
  | CloudCreateRunner InstanceID string
  | CloudFlushRunners string bool
  | LogException string
  | LogWarning string
  | GetInstances
  | GetInstance InstanceID
  | GetSshConnection string
  | SshRun string string
  | SshGet string string string
  | MetricsStorageGet string
  | Sleep nat
  | DeleteInstance InstanceID
  | OpenstackCleanup

section \<open>The world the manager talks to\<close>

text \<open>What one remote-shell connection answers: \<^verbatim>\<open>run\<close> gives the result of a command
  (run with \<^verbatim>\<open>warn=True\<close>, so a failing command is a result that is not \<^verbatim>\<open>ok\<close>) or
  the exception it raises, \<^verbatim>\<open>get\<close> the outcome of a file transfer. The remote shell
  raises the exceptions the code names in its handlers.\<close>

record run_result =
  ok :: bool
  stdout :: string

record ssh_conn =
  host :: string
  run :: "string \<Rightarrow> transport_error + run_result"
  get :: "string \<Rightarrow> string \<Rightarrow> get_error option"

record OpenstackInstance =
  server_name :: string
  os_instance_id :: InstanceID
  status :: string

text \<open>What the world answers to one creation job: the name \<^verbatim>\<open>InstanceID.build\<close> mints,
  the outcome of \<^verbatim>\<open>get_registration_jittoken\<close> and of the cloud's \<^verbatim>\<open>create_runner\<close>
  (\<open>None\<close> when it returns).\<close>

record job_world =
  minted_name :: string
  registration_jittoken :: "error + (string \<times> SelfHostedRunner)"
  cloud_create_runner :: "error option"

text \<open>The answers of the collaborators. An SSH connection is requested several times for
  one instance (health-check retries, then removal), so its answer depends on the trace so
  far; \<open>None\<close> is \<^verbatim>\<open>SshError\<close>. \<^verbatim>\<open>delete_instance\<close> is false when the provider raises
  \<^verbatim>\<open>OpenstackError\<close>. \<^verbatim>\<open>int_of_str\<close> is Python's \<^verbatim>\<open>int\<close> on a string
  (\<open>None\<close> is \<^verbatim>\<open>ValueError\<close>); \<^verbatim>\<open>from_openstack_server_status\<close> and
  \<^verbatim>\<open>GITHUB_DEFAULT_LABELS\<close> are declared outside the sources.\<close>

record world =
  github_runners :: "SelfHostedRunner list"
  cloud_runners :: "CloudRunnerInstance list"
  removal_token :: string
  jobs :: "nat \<Rightarrow> job_world"
  completion_order :: "nat list"
  cloud_flush :: "bool \<Rightarrow> RunnerMetrics list"
  github_job :: "string \<Rightarrow> string \<Rightarrow> string option"
  issue_events :: "RunnerMetrics \<Rightarrow> string option \<Rightarrow> string \<Rightarrow> string set"
  GITHUB_DEFAULT_LABELS :: "string list"
  get_instances :: "OpenstackInstance list"
  get_instance :: "InstanceID \<Rightarrow> OpenstackInstance"
  get_ssh_connection :: "event list \<Rightarrow> OpenstackInstance \<Rightarrow> ssh_conn option"
  delete_instance :: "InstanceID \<Rightarrow> bool"
  from_openstack_server_status :: "string \<Rightarrow> CloudRunnerState"
  metrics_storage_get :: "string \<Rightarrow> string option"
  metrics_extract :: "string set \<Rightarrow> RunnerMetrics list"
  int_of_str :: "string \<Rightarrow> int option"

record RunnerManager =
  manager_name :: string
  name_prefix :: string
  labels :: "string list"

type_synonym IssuedMetricEventsStats = "string \<Rightarrow> nat"

type_synonym 'a action = "event list \<Rightarrow> 'a \<times> event list"

section \<open>Fleet reconciliation engine (runner\_manager.py)\<close>

subsection \<open>get\_runners\<close>

text \<open>A Python dict built by a comprehension: keys keep the position of their first
  insertion, a later value for the same key replaces the earlier one.\<close>

definition dict_of :: "('k \<times> 'v) list \<Rightarrow> ('k \<times> 'v) list" where
  "dict_of kvs = foldl (\<lambda>d kv. AList.update (fst kv) (snd kv) d) [] kvs"

text \<open>Modelled from the spec: \<^verbatim>\<open>GitHubRunnerManager.get_runners\<close> is missing; it lists
  the registration records, narrowed to the given states when a filter is supplied.\<close>

definition github_get_runners ::
  "world \<Rightarrow> GitHubRunnerState list option \<Rightarrow> event list \<Rightarrow> SelfHostedRunner list \<times> event list" where
  "github_get_runners w states tr =
     ((case states of None \<Rightarrow> github_runners w
       | Some ss \<Rightarrow> filter (\<lambda>r. shr_state r \<in> set ss) (github_runners w)),
      tr @ [GithubGetRunners states])"

text \<open>The cloud runner manager's \<^verbatim>\<open>get_runners\<close>: all instances, or those whose state
  is among \<^verbatim>\<open>states\<close>.\<close>

definition cloud_get_runners ::
  "world \<Rightarrow> CloudRunnerState list option \<Rightarrow> event list \<Rightarrow> CloudRunnerInstance list \<times> event list" where
  "cloud_get_runners w states tr =
     ((case states of None \<Rightarrow> cloud_runners w
       | Some ss \<Rightarrow> filter (\<lambda>i. cri_state i \<in> set ss) (cloud_runners w)),
      tr @ [CloudGetRunners states])"

definition get_runners ::
  "world \<Rightarrow> GitHubRunnerState list option \<Rightarrow> CloudRunnerState list option \<Rightarrow> event list
     \<Rightarrow> RunnerInstance list \<times> event list" where
  "get_runners w github_states cloud_states tr =
     (let (github_infos, tr1) = github_get_runners w github_states tr;
          (cloud_infos, tr2) = cloud_get_runners w cloud_states tr1;
          github_infos_map = dict_of (map (\<lambda>info. (iid_name (shr_instance_id info), info)) github_infos);
          cloud_infos_map = dict_of (map (\<lambda>info. (cri_name info, info)) cloud_infos);
          runner_names = set (map fst cloud_infos_map) \<inter> set (map fst github_infos_map);
          cloud_only = set (map fst cloud_infos_map) - runner_names;
          github_only = set (map fst github_infos_map) - runner_names;
          tr3 = tr2 @ (if cloud_only \<noteq> {} then [WarnCloudOnly cloud_only] else [])
                    @ (if github_only \<noteq> {} then [WarnGithubOnly github_only] else []);
          runner_instances =
            map (\<lambda>(nm, cloud_info). RunnerInstance_init cloud_info (map_of github_infos_map nm))
              cloud_infos_map;
          runner_instances1 =
            (case cloud_states of None \<Rightarrow> runner_instances
             | Some cs \<Rightarrow> filter (\<lambda>runner. cloud_state runner \<in> set cs) runner_instances);
          runner_instances2 =
            (case github_states of None \<Rightarrow> runner_instances1
             | Some gs \<Rightarrow>
                 filter (\<lambda>runner. case github_state runner of None \<Rightarrow> False | Some s \<Rightarrow> s \<in> set gs)
                   runner_instances1)
      in (runner_instances2, tr3))"

subsection \<open>cleanup: offline coordination-service reconciliation\<close>

text \<open>The loop of \<^verbatim>\<open>_cleanup_github_offline_runners\<close> over the offline runners, with
  \<^verbatim>\<open>github_runners_to_delete\<close> as accumulator; each \<^verbatim>\<open>continue\<close> is a recursive call
  that leaves the accumulator alone.\<close>

fun offline_loop ::
  "(InstanceID \<times> RunnerInstance) list \<Rightarrow> SelfHostedRunner list \<Rightarrow> SelfHostedRunner list
     \<Rightarrow> SelfHostedRunner list" where
  "offline_loop cloud_instances_map [] github_runners_to_delete = github_runners_to_delete"
| "offline_loop cloud_instances_map (github_runner # rest) github_runners_to_delete =
     (if \<not> reactive (shr_instance_id github_runner)
      then offline_loop cloud_instances_map rest (github_runners_to_delete @ [github_runner])
      else (case map_of cloud_instances_map (shr_instance_id github_runner) of
              None \<Rightarrow> offline_loop cloud_instances_map rest github_runners_to_delete
            | Some cloud_runner \<Rightarrow>
                if cloud_state cloud_runner = CREATED
                   \<or> (cloud_state cloud_runner = ACTIVE \<and> health cloud_runner = HEALTHY)
                then offline_loop cloud_instances_map rest github_runners_to_delete
                else offline_loop cloud_instances_map rest (github_runners_to_delete @ [github_runner])))"

definition cleanup_github_offline_runners :: "world \<Rightarrow> event list \<Rightarrow> event list" where
  "cleanup_github_offline_runners w tr =
     (let (cloud_instances, tr1) = get_runners w None None tr;
          cloud_instances_map = dict_of (map (\<lambda>ci. (instance_id ci, ci)) cloud_instances);
          (github_runners_offline, tr2) = github_get_runners w (Some [OFFLINE]) tr1;
          github_runners_to_delete = offline_loop cloud_instances_map github_runners_offline []
      in tr2 @ [GithubDeleteRunners github_runners_to_delete])"


subsection \<open>Metrics issuance\<close>

text \<open>\<^verbatim>\<open>_issue_runner_metrics\<close>. The tally is a dict from event kind to count; a kind
  that is not a key counts 0, as \<^verbatim>\<open>total_stats.get(event_type, 0)\<close> reads it.
  \<^verbatim>\<open>github_job\<close> is \<^verbatim>\<open>github_metrics.job\<close>, \<open>None\<close> when it raises
  \<^verbatim>\<open>GithubMetricsError\<close>; \<^verbatim>\<open>issue_events\<close> is \<^verbatim>\<open>runner_metrics.issue_events\<close>, the
  set of event kinds it issued.\<close>

fun issue_runner_metrics ::
  "RunnerManager \<Rightarrow> world \<Rightarrow> RunnerMetrics list \<Rightarrow> IssuedMetricEventsStats
     \<Rightarrow> IssuedMetricEventsStats action" where
  "issue_runner_metrics m w [] total_stats tr = (total_stats, tr)"
| "issue_runner_metrics m w (extracted_metrics # rest) total_stats tr =
     (let (job_metrics, tr1) =
            (case pre_job extracted_metrics of
               Some pre \<Rightarrow>
                 (case github_job w pre (iid_name (rm_instance_id extracted_metrics)) of
                    Some job \<Rightarrow> (Some job, tr @ [GithubJob (iid_name (rm_instance_id extracted_metrics))])
                  | None \<Rightarrow>
                      (None, tr @ [GithubJob (iid_name (rm_instance_id extracted_metrics)),
                                   LogException ''Failed to calculate job metrics''])
                 )
             | None \<Rightarrow> (None, tr));
          issued_events = issue_events w extracted_metrics job_metrics (manager_name m);
          tr2 = tr1 @ [IssueEvents (rm_instance_id extracted_metrics)]
      in issue_runner_metrics m w rest
           (\<lambda>event_type. if event_type \<in> issued_events then total_stats event_type + 1
                          else total_stats event_type)
           tr2)"

subsection \<open>create\_runners and the parallel spawner\<close>

text \<open>The fields of \<^verbatim>\<open>_CreateRunnerArgs\<close> that are data; the two manager objects it
  carries are the world.\<close>

record CreateRunnerArgs =
  cra_name_prefix :: string
  cra_labels :: "string list"
  cra_reactive :: bool

text \<open>Modelled from the spec: \<^verbatim>\<open>InstanceID.build\<close> is missing; it mints a new
  identifier that carries the reactive flag.\<close>

definition InstanceID_build :: "string \<Rightarrow> bool \<Rightarrow> string \<Rightarrow> InstanceID" where
  "InstanceID_build pfx is_reactive minted = \<lparr> iid_name = minted, reactive = is_reactive \<rparr>"

text \<open>\<^verbatim>\<open>_create_runner\<close>: \<open>Inl\<close> is the exception that leaves the function.\<close>

definition create_runner ::
  "CreateRunnerArgs \<Rightarrow> job_world \<Rightarrow> (error + InstanceID) action" where
  "create_runner args jw tr =
     (let instance_id = InstanceID_build (cra_name_prefix args) (cra_reactive args) (minted_name jw);
          tr1 = tr @ [GithubGetRegistrationJittoken instance_id (cra_labels args)]
      in case registration_jittoken jw of
           Inl e \<Rightarrow> (Inl e, tr1)
         | Inr (jittoken, github_runner) \<Rightarrow>
             (let tr2 = tr1 @ [CloudCreateRunner instance_id jittoken]
              in case cloud_create_runner jw of
                   None \<Rightarrow> (Inr instance_id, tr2)
                 | Some e \<Rightarrow>
                     if e = RunnerError
                     then (Inl e, tr2 @ [GithubDeleteRunners [github_runner]])
                     else (Inl e, tr2)))"

text \<open>\<^verbatim>\<open>pool.imap_unordered\<close>: the outcomes of the jobs in the order in which they
  complete, \<open>order\<close> listing the job indices in that order.\<close>

definition imap_unordered :: "'a list \<Rightarrow> nat list \<Rightarrow> 'a list" where
  "imap_unordered outcomes order = map (\<lambda>i. outcomes ! i) (filter (\<lambda>i. i < length outcomes) order)"

text \<open>The loop \<^verbatim>\<open>for _ in range(num)\<close> around \<^verbatim>\<open>next(jobs)\<close>: an exhausted iterator
  breaks the loop, a \<^verbatim>\<open>RunnerError\<close> is logged, any other exception leaves the loop.\<close>

fun spawn_loop ::
  "nat \<Rightarrow> (error + InstanceID) list \<Rightarrow> InstanceID list \<Rightarrow> (error + InstanceID list) action" where
  "spawn_loop 0 js instance_id_list tr = (Inr instance_id_list, tr)"
| "spawn_loop (Suc n) [] instance_id_list tr = (Inr instance_id_list, tr)"
| "spawn_loop (Suc n) (Inr iid # js) instance_id_list tr =
     spawn_loop n js (instance_id_list @ [iid]) tr"
| "spawn_loop (Suc n) (Inl e # js) instance_id_list tr =
     (if e = RunnerError
      then spawn_loop n js instance_id_list (tr @ [LogException ''Failed to spawn a runner.''])
      else (Inl e, tr))"

text \<open>\<^verbatim>\<open>_spawn_runners_using_multiprocessing\<close>. Job \<open>i\<close> runs in a worker process
  against \<open>jobs w i\<close>; only its outcome comes back. \<^verbatim>\<open>Pool(processes=0)\<close> raises
  \<^verbatim>\<open>ValueError\<close>.\<close>

definition spawn_runners_using_multiprocessing ::
  "world \<Rightarrow> CreateRunnerArgs list \<Rightarrow> nat \<Rightarrow> (error + InstanceID list) action" where
  "spawn_runners_using_multiprocessing w create_runner_args_sequence num tr =
     (if min num 10 < 1 then (Inl ValueError, tr)
      else spawn_loop num
             (imap_unordered
                (map (\<lambda>(i, args). fst (create_runner args (jobs w i) []))
                   (enumerate 0 create_runner_args_sequence))
                (completion_order w))
             [] tr)"

text \<open>\<^verbatim>\<open>_spawn_runners\<close>.\<close>

definition spawn_runners ::
  "world \<Rightarrow> CreateRunnerArgs list \<Rightarrow> (error + InstanceID list) action" where
  "spawn_runners w create_runner_args_sequence tr =
     (let num = length create_runner_args_sequence
      in if num = 1
         then (case create_runner (create_runner_args_sequence ! 0) (jobs w 0) tr of
                 (Inr iid, tr') \<Rightarrow> (Inr [iid], tr')
               | (Inl e, tr') \<Rightarrow>
                   if e = RunnerError
                   then (Inr [], tr' @ [LogException ''Failed to spawn a runner.''])
                   else (Inl e, tr'))
         else spawn_runners_using_multiprocessing w create_runner_args_sequence num tr)"

definition create_runners ::
  "RunnerManager \<Rightarrow> world \<Rightarrow> int \<Rightarrow> bool \<Rightarrow> (error + InstanceID list) action" where
  "create_runners m w num is_reactive tr =
     (let all_labels = labels m @ GITHUB_DEFAULT_LABELS w;
          create_runner_args =
            replicate (nat num)
              \<lparr> cra_name_prefix = name_prefix m, cra_labels = all_labels, cra_reactive = is_reactive \<rparr>
      in spawn_runners w create_runner_args tr)"

subsection \<open>flush\_runners\<close>

text \<open>The cloud runner manager's \<^verbatim>\<open>flush_runners\<close> is outside the sources: the call
  is recorded with its two arguments, and \<^verbatim>\<open>cloud_flush\<close> gives the metrics it
  returns.\<close>

definition flush_runners ::
  "RunnerManager \<Rightarrow> world \<Rightarrow> FlushMode \<Rightarrow> IssuedMetricEventsStats action" where
  "flush_runners m w flush_mode tr =
     (let busy = (if flush_mode = FLUSH_BUSY then True else False);
          remove_token = removal_token w;
          tr1 = tr @ [GithubGetRemovalToken];
          stats = cloud_flush w busy;
          tr2 = tr1 @ [CloudFlushRunners remove_token busy]
      in issue_runner_metrics m w stats (\<lambda>event_type. 0) tr2)"


section \<open>Cloud runner manager on OpenStack (openstack\_runner\_manager.py)\<close>

definition METRICS_EXCHANGE_PATH :: string where
  "METRICS_EXCHANGE_PATH = ''/home/ubuntu/metrics-exchange''"

definition CONFIG_SCRIPT_PATH :: string where
  "CONFIG_SCRIPT_PATH = ''/home/ubuntu/actions-runner/config.sh''"

definition MAX_METRICS_FILE_SIZE :: int where
  "MAX_METRICS_FILE_SIZE = 1024"

definition RUNNER_LISTENER_PROCESS :: string where
  "RUNNER_LISTENER_PROCESS = ''Runner.Listener''"

definition RUNNER_WORKER_PROCESS :: string where
  "RUNNER_WORKER_PROCESS = ''Runner.Worker''"

record RunnerHealth =
  healthy :: "OpenstackInstance list"
  unhealthy :: "OpenstackInstance list"

subsection \<open>Metrics pull\<close>

text \<open>\<^verbatim>\<open>_ssh_pull_file\<close>.\<close>

definition ssh_pull_file ::
  "world \<Rightarrow> ssh_conn \<Rightarrow> string \<Rightarrow> string \<Rightarrow> int \<Rightarrow> (error + unit) action" where
  "ssh_pull_file w ssh remote_path local_path max_size tr =
     (let tr1 = tr @ [SshRun (host ssh) (''stat -c %s '' @ remote_path)]
      in case run ssh (''stat -c %s '' @ remote_path) of
           Inl exc \<Rightarrow> (Inl SshError, tr1)
         | Inr result \<Rightarrow>
             if \<not> ok result then (Inl PullFileError, tr1)
             else (case int_of_str w (stdout result) of
                     None \<Rightarrow> (Inl PullFileError, tr1)
                   | Some sz \<Rightarrow>
                       if sz > max_size then (Inl PullFileError, tr1)
                       else (let tr2 = tr1 @ [SshGet (host ssh) remote_path local_path]
                             in case get ssh remote_path local_path of
                                  None \<Rightarrow> (Inr (), tr2)
                                | Some (GetTransport exc) \<Rightarrow> (Inl SshError, tr2)
                                | Some GetOSError \<Rightarrow> (Inl PullFileError, tr2))))"

text \<open>\<^verbatim>\<open>_pull_runner_metrics\<close>: one \<^verbatim>\<open>try\<close> block holds both pulls and catches
  \<^verbatim>\<open>_PullFileError\<close>; \<^verbatim>\<open>metrics_storage_get\<close> gives the path of the shared storage,
  \<open>None\<close> when it raises \<^verbatim>\<open>GetMetricsStorageError\<close>.\<close>

definition pull_runner_metrics :: "world \<Rightarrow> string \<Rightarrow> ssh_conn \<Rightarrow> (error + unit) action" where
  "pull_runner_metrics w nm ssh tr =
     (let tr1 = tr @ [MetricsStorageGet nm]
      in case metrics_storage_get w nm of
           None \<Rightarrow> (Inr (), tr1 @ [LogException ''Failed to get shared metrics storage''])
         | Some storage_path \<Rightarrow>
             (case ssh_pull_file w ssh (METRICS_EXCHANGE_PATH @ ''/pre-job-metrics.json'')
                     (storage_path @ ''/pre-job-metrics.json'') MAX_METRICS_FILE_SIZE tr1 of
                (Inl e, tr2) \<Rightarrow>
                  if e = PullFileError then (Inr (), tr2 @ [LogWarning ''Failed to pull metrics''])
                  else (Inl e, tr2)
              | (Inr u, tr2) \<Rightarrow>
                  (case ssh_pull_file w ssh (METRICS_EXCHANGE_PATH @ ''/post-job-metrics.json'')
                          (storage_path @ ''/post-job-metrics.json'') MAX_METRICS_FILE_SIZE tr2 of
                     (Inl e, tr3) \<Rightarrow>
                       if e = PullFileError then (Inr (), tr3 @ [LogWarning ''Failed to pull metrics''])
                       else (Inl e, tr3)
                   | (Inr u', tr3) \<Rightarrow> (Inr (), tr3))))"

subsection \<open>Deleting an instance\<close>

text \<open>\<^verbatim>\<open>_run_github_runner_removal_script\<close>.\<close>

definition run_github_runner_removal_script ::
  "string \<Rightarrow> ssh_conn \<Rightarrow> string \<Rightarrow> (error + unit) action" where
  "run_github_runner_removal_script instance_name ssh remove_token tr =
     (let command = CONFIG_SCRIPT_PATH @ '' remove --token '' @ remove_token;
          tr1 = tr @ [SshRun (host ssh) command]
      in case run ssh command of
           Inl exc \<Rightarrow> (Inl GithubRunnerRemoveError, tr1)
         | Inr result \<Rightarrow>
             if ok result then (Inr (), tr1)
             else (Inl GithubRunnerRemoveError, tr1 @ [LogWarning ''Unable to run removal script'']))"

text \<open>\<^verbatim>\<open>_delete_runner\<close>: the first \<^verbatim>\<open>try\<close> block (connection, metrics pull, removal
  script) and then the provider-level delete.\<close>

definition delete_runner_priv ::
  "world \<Rightarrow> OpenstackInstance \<Rightarrow> string \<Rightarrow> (error + unit) action" where
  "delete_runner_priv w instance remove_token tr =
     (let tr1 = tr @ [GetSshConnection (server_name instance)];
          (r, tr2) =
            (case get_ssh_connection w tr instance of
               None \<Rightarrow> (Inl SshError, tr1)
             | Some ssh \<Rightarrow>
                 (case pull_runner_metrics w (server_name instance) ssh tr1 of
                    (Inl e, tr') \<Rightarrow> (Inl e, tr')
                  | (Inr u, tr') \<Rightarrow>
                      (case run_github_runner_removal_script (server_name instance) ssh
                              remove_token tr' of
                         (Inl e, tr'') \<Rightarrow>
                           if e = GithubRunnerRemoveError
                           then (Inr (), tr'' @ [LogWarning ''Unable to run github runner removal script''])
                           else (Inl e, tr'')
                       | (Inr u', tr'') \<Rightarrow> (Inr (), tr''))));
          tr3 = (case r of
                   Inl e \<Rightarrow> tr2 @ [LogException ''Failed to get SSH connection while removing'',
                                     LogWarning ''Skipping runner remove script due to SSH issues'']
                 | Inr u \<Rightarrow> tr2)
      in if (case r of Inl e \<Rightarrow> e \<noteq> SshError | Inr u \<Rightarrow> False)
         then (r, tr2)
         else (Inr (),
               tr3 @ [DeleteInstance (os_instance_id instance)]
                   @ (if delete_instance w (os_instance_id instance) then []
                      else [LogException ''Unable to delete openstack instance''])))"

text \<open>\<^verbatim>\<open>delete_runner\<close>: \<^verbatim>\<open>runner_metrics.extract\<close> is a generator, read by
  \<^verbatim>\<open>next(metric, None)\<close> after the instance is gone.\<close>

definition delete_runner ::
  "world \<Rightarrow> InstanceID \<Rightarrow> string \<Rightarrow> (error + RunnerMetrics option) action" where
  "delete_runner w iid remove_token tr =
     (let instance = get_instance w iid;
          tr1 = tr @ [GetInstance iid]
      in case delete_runner_priv w instance remove_token tr1 of
           (Inl e, tr2) \<Rightarrow> (Inl e, tr2)
         | (Inr u, tr2) \<Rightarrow>
             ((case metrics_extract w {server_name instance} of
                 [] \<Rightarrow> Inr None
               | metric # rest \<Rightarrow> Inr (Some metric)), tr2))"

subsection \<open>Health\<close>

text \<open>\<^verbatim>\<open>_run_health_check\<close>; \<^verbatim>\<open>in\<close> on strings is containment of a contiguous
  piece. An exception of \<^verbatim>\<open>ssh_conn.run\<close> is not handled here.\<close>

definition run_health_check :: "ssh_conn \<Rightarrow> string \<Rightarrow> (error + bool) action" where
  "run_health_check ssh nm tr =
     (let tr1 = tr @ [SshRun (host ssh) ''ps aux'']
      in case run ssh ''ps aux'' of
           Inl exc \<Rightarrow> (Inl (Transport exc), tr1)
         | Inr result \<Rightarrow>
             if \<not> ok result then (Inr False, tr1 @ [LogWarning ''SSH run of `ps aux` failed''])
             else if \<not> sublist RUNNER_WORKER_PROCESS (stdout result)
                     \<and> \<not> sublist RUNNER_LISTENER_PROCESS (stdout result)
             then (Inr False, tr1 @ [LogWarning ''Runner process not found''])
             else (Inr True, tr1))"

text \<open>The body of \<^verbatim>\<open>_health_check\<close>, one attempt.\<close>

definition health_check_attempt :: "world \<Rightarrow> OpenstackInstance \<Rightarrow> (error + bool) action" where
  "health_check_attempt w instance tr =
     (let tr1 = tr @ [GetSshConnection (server_name instance)]
      in case get_ssh_connection w tr instance of
           None \<Rightarrow> (Inl SshError, tr1 @ [LogException ''SSH connection failure during health check''])
         | Some ssh \<Rightarrow> run_health_check ssh (server_name instance) tr1)"

text \<open>Modelled from the spec: the \<^verbatim>\<open>retry\<close> decorator of \<^verbatim>\<open>utilities\<close> is missing.
  It calls the function up to \<^verbatim>\<open>tries\<close> times, waiting \<^verbatim>\<open>delay\<close> before the next
  attempt and multiplying the delay by \<^verbatim>\<open>backoff\<close>; exhausting the retries raises the
  error of the last attempt. Every call in the sources has \<^verbatim>\<open>tries\<close> of at least 1;
  0 is taken as one attempt.\<close>

fun retry :: "nat \<Rightarrow> nat \<Rightarrow> nat \<Rightarrow> (error + 'a) action \<Rightarrow> (error + 'a) action" where
  "retry 0 delay backoff f tr = f tr"
| "retry (Suc n) delay backoff f tr =
     (case f tr of
        (Inr v, tr') \<Rightarrow> (Inr v, tr')
      | (Inl e, tr') \<Rightarrow>
          if n = 0 then (Inl e, tr')
          else retry n (delay * backoff) backoff f (tr' @ [Sleep delay]))"

text \<open>\<^verbatim>\<open>_health_check\<close> as decorated: \<^verbatim>\<open>@retry(tries=3, delay=5, backoff=2)\<close>.\<close>

definition health_check :: "world \<Rightarrow> OpenstackInstance \<Rightarrow> (error + bool) action" where
  "health_check w instance tr = retry 3 5 2 (health_check_attempt w instance) tr"

text \<open>The loop of \<^verbatim>\<open>_get_runner_health\<close>. The \<^verbatim>\<open>or\<close> is short-circuit: the probe
  runs only for an instance whose state is none of deleted, error, stopped.\<close>

fun get_runner_health_loop ::
  "world \<Rightarrow> OpenstackInstance list \<Rightarrow> OpenstackInstance list \<Rightarrow> OpenstackInstance list
     \<Rightarrow> (error + RunnerHealth) action" where
  "get_runner_health_loop w [] hs us tr = (Inr \<lparr> healthy = hs, unhealthy = us \<rparr>, tr)"
| "get_runner_health_loop w (runner # rest) hs us tr =
     (let cloud_state = from_openstack_server_status w (status runner)
      in if cloud_state \<in> {DELETED, ERROR, STOPPED}
         then get_runner_health_loop w rest hs (us @ [runner]) tr
         else (case health_check w runner tr of
                 (Inl e, tr') \<Rightarrow> (Inl e, tr')
               | (Inr check, tr') \<Rightarrow>
                   if \<not> check then get_runner_health_loop w rest hs (us @ [runner]) tr'
                   else get_runner_health_loop w rest (hs @ [runner]) us tr'))"

definition get_runner_health :: "world \<Rightarrow> (error + RunnerHealth) action" where
  "get_runner_health w tr = get_runner_health_loop w (get_instances w) [] [] (tr @ [GetInstances])"

subsection \<open>Cloud-side cleanup\<close>

text \<open>The loop \<^verbatim>\<open>for runner in runners.unhealthy\<close> of \<^verbatim>\<open>cleanup\<close>.\<close>

fun delete_unhealthy :: "world \<Rightarrow> OpenstackInstance list \<Rightarrow> string \<Rightarrow> (error + unit) action" where
  "delete_unhealthy w [] remove_token tr = (Inr (), tr)"
| "delete_unhealthy w (runner # rest) remove_token tr =
     (case delete_runner_priv w runner remove_token tr of
        (Inl e, tr') \<Rightarrow> (Inl e, tr')
      | (Inr u, tr') \<Rightarrow> delete_unhealthy w rest remove_token tr')"

text \<open>\<^verbatim>\<open>OpenstackRunnerManager.cleanup\<close>; it returns the metrics extracted for the healthy
  runners' names.\<close>

definition openstack_cleanup :: "world \<Rightarrow> string \<Rightarrow> (error + RunnerMetrics list) action" where
  "openstack_cleanup w remove_token tr =
     (case get_runner_health w tr of
        (Inl e, tr1) \<Rightarrow> (Inl e, tr1)
      | (Inr runners, tr1) \<Rightarrow>
          (let healthy_runner_names = map server_name (healthy runners);
               metrics = metrics_extract w (set healthy_runner_names)
           in case delete_unhealthy w (unhealthy runners) remove_token tr1 of
                (Inl e, tr2) \<Rightarrow> (Inl e, tr2)
              | (Inr u, tr2) \<Rightarrow> (Inr metrics, tr2 @ [OpenstackCleanup])))"

section \<open>Deleting and cleaning up through the engine\<close>





text \<open>\<^verbatim>\<open>RunnerManager.cleanup\<close>.\<close>

definition cleanup :: "RunnerManager \<Rightarrow> world \<Rightarrow> (error + IssuedMetricEventsStats) action" where
  "cleanup m w tr =
     (let tr1 = cleanup_github_offline_runners w tr;
          remove_token = removal_token w;
          tr2 = tr1 @ [GithubGetRemovalToken]
      in case openstack_cleanup w remove_token tr2 of
           (Inl e, tr3) \<Rightarrow> (Inl e, tr3)
         | (Inr deleted_runner_metrics, tr3) \<Rightarrow>
             (case issue_runner_metrics m w deleted_runner_metrics (\<lambda>event_type. 0) tr3 of
                (total_stats, tr4) \<Rightarrow> (Inr total_stats, tr4)))"


section \<open>What a batch of creation jobs yields\<close>

text \<open>The argument record that \<^verbatim>\<open>create_runners\<close> builds \<^verbatim>\<open>num\<close> times, and what
  job \<open>i\<close> of the batch returns or raises when it runs \<^verbatim>\<open>_create_runner\<close> on it.\<close>

definition batch_args :: "RunnerManager \<Rightarrow> world \<Rightarrow> bool \<Rightarrow> CreateRunnerArgs" where
  "batch_args m w is_reactive =
     \<lparr> cra_name_prefix = name_prefix m, cra_labels = labels m @ GITHUB_DEFAULT_LABELS w,
       cra_reactive = is_reactive \<rparr>"

definition job_outcome :: "RunnerManager \<Rightarrow> world \<Rightarrow> bool \<Rightarrow> nat \<Rightarrow> error + InstanceID" where
  "job_outcome m w is_reactive i = fst (create_runner (batch_args m w is_reactive) (jobs w i) [])"

section \<open>Kinds of actions\<close>

text \<open>Commands on a remote shell and log lines.\<close>

definition io_event :: "event \<Rightarrow> bool" where
  "io_event e = (case e of SshRun h c \<Rightarrow> True | SshGet h r l \<Rightarrow> True
                 | LogException s \<Rightarrow> True | LogWarning s \<Rightarrow> True | _ \<Rightarrow> False)"

text \<open>The actions of a health probe: connecting, commands, log lines and the waits
  between attempts.\<close>

definition probe_event :: "event \<Rightarrow> bool" where
  "probe_event e = (case e of GetSshConnection n \<Rightarrow> True | SshRun h c \<Rightarrow> True
                    | LogException s \<Rightarrow> True | LogWarning s \<Rightarrow> True | Sleep d \<Rightarrow> True
                    | _ \<Rightarrow> False)"

text \<open>The actions of \<^verbatim>\<open>_issue_runner_metrics\<close>.\<close>

definition metrics_event :: "event \<Rightarrow> bool" where
  "metrics_event e = (case e of GithubJob n \<Rightarrow> True | IssueEvents i \<Rightarrow> True
                      | LogException s \<Rightarrow> True | _ \<Rightarrow> False)"

text \<open>The actions of one best-effort deletion of an instance, as a shape of trace: the
  SSH connection is requested; the metrics pull starts (it asks for the metrics storage
  first) when a connection is obtained and is left out when none is; remote commands and
  log lines follow; then the provider is asked to delete the instance, and only log lines
  come after that.\<close>

definition deletion_trace :: "world \<Rightarrow> OpenstackInstance \<Rightarrow> event list \<Rightarrow> bool" where
  "deletion_trace w instance seg =
     (\<exists>pulled rest logs.
        seg = [GetSshConnection (server_name instance)] @ pulled @ rest
              @ [DeleteInstance (os_instance_id instance)] @ logs
        \<and> ((\<exists>tr0 ssh. get_ssh_connection w tr0 instance = Some ssh)
              \<and> pulled = [MetricsStorageGet (server_name instance)]
            \<or> (\<exists>tr0. get_ssh_connection w tr0 instance = None) \<and> pulled = [])
        \<and> list_all io_event rest \<and> list_all io_event logs)"

section \<open>Example worlds\<close>

text \<open>Concrete worlds on which the theorems below are exercised.\<close>

definition quiet_conn :: "string \<Rightarrow> ssh_conn" where
  "quiet_conn h = \<lparr> host = h,
      run = (\<lambda>command. Inr \<lparr> ok = True, stdout = ''10'' \<rparr>),
      get = (\<lambda>remote local. None) \<rparr>"

definition rid :: "string \<Rightarrow> bool \<Rightarrow> InstanceID" where
  "rid n r = \<lparr> iid_name = n, reactive = r \<rparr>"

definition offline_runner :: "string \<Rightarrow> bool \<Rightarrow> SelfHostedRunner" where
  "offline_runner n r = \<lparr> shr_instance_id = rid n r, shr_state = OFFLINE \<rparr>"

definition cloud_instance ::
  "string \<Rightarrow> bool \<Rightarrow> HealthState \<Rightarrow> CloudRunnerState \<Rightarrow> CloudRunnerInstance" where
  "cloud_instance n r h s = \<lparr> cri_name = n, cri_instance_id = rid n r, cri_health = h, cri_state = s \<rparr>"

definition server :: "string \<Rightarrow> string \<Rightarrow> OpenstackInstance" where
  "server n st = \<lparr> server_name = n, os_instance_id = rid n False, status = st \<rparr>"

definition quiet_world :: world where
  "quiet_world = \<lparr>
     github_runners = [],
     cloud_runners = [],
     removal_token = ''remove-token'',
     jobs = (\<lambda>i. \<lparr> minted_name = replicate (Suc i) CHR ''r'',
                     registration_jittoken = Inr (''jit'', offline_runner (replicate (Suc i) CHR ''r'') False),
                     cloud_create_runner = None \<rparr>),
     completion_order = [],
     cloud_flush = (\<lambda>busy. []),
     github_job = (\<lambda>pre nm. None),
     issue_events = (\<lambda>metrics job flavor. {}),
     GITHUB_DEFAULT_LABELS = [''self-hosted'', ''linux'', ''x64''],
     get_instances = [],
     get_instance = (\<lambda>iid. server (iid_name iid) ''ACTIVE''),
     get_ssh_connection = (\<lambda>tr instance. None),
     delete_instance = (\<lambda>iid. True),
     from_openstack_server_status =
       (\<lambda>s. if s = ''ACTIVE'' then ACTIVE else if s = ''BUILD'' then CREATED
            else if s = ''SHUTOFF'' then STOPPED else if s = ''DELETED'' then DELETED else ERROR),
     metrics_storage_get = (\<lambda>nm. Some (''/metrics/'' @ nm)),
     metrics_extract = (\<lambda>names. []),
     int_of_str = (\<lambda>s. if s = ''2048'' then Some 2048 else if s = ''10'' then Some 10 else None) \<rparr>"

text \<open>Five offline registrations: one of the steady pool, four reactive ones of which
  one has no cloud instance, one a created, one an active and healthy, one an active and
  unhealthy instance.\<close>

definition offline_world :: world where
  "offline_world = quiet_world \<lparr>
     github_runners := [offline_runner ''a'' False, offline_runner ''b'' True, offline_runner ''c'' True,
                        offline_runner ''d'' True, offline_runner ''e'' True],
     cloud_runners := [cloud_instance ''c'' True HEALTHY CREATED, cloud_instance ''d'' True HEALTHY ACTIVE,
                       cloud_instance ''e'' True UNHEALTHY ACTIVE] \<rparr>"


definition pool_manager :: RunnerManager where
  "pool_manager = \<lparr> manager_name = ''pool'', name_prefix = ''unit'', labels = [''large''] \<rparr>"

text \<open>A creation job whose cloud-side \<^verbatim>\<open>create_runner\<close> raises a runner error after the
  registration.\<close>

definition failing_job :: "string \<Rightarrow> job_world" where
  "failing_job n = \<lparr> minted_name = n,
                     registration_jittoken = Inr (''jit'', offline_runner n False),
                     cloud_create_runner = Some RunnerError \<rparr>"

text \<open>Three jobs, the second failing; they complete in the order third, first, second.\<close>

definition batch_world :: world where
  "batch_world = quiet_world \<lparr>
     jobs := (\<lambda>i. if i = 1 then failing_job ''rr'' else jobs quiet_world i),
     completion_order := [2, 0, 1] \<rparr>"

text \<open>Every creation job fails.\<close>

definition failing_world :: world where
  "failing_world = quiet_world \<lparr> jobs := (\<lambda>i. failing_job ''r'') \<rparr>"

text \<open>A connection on which the pre-job metrics file is 2048 bytes long, and one on which
  the post-job file is.\<close>

definition oversize_pre_conn :: ssh_conn where
  "oversize_pre_conn = quiet_conn ''s1'' \<lparr>
     run := (\<lambda>command. if command = ''stat -c %s /home/ubuntu/metrics-exchange/pre-job-metrics.json''
                        then Inr \<lparr> ok = True, stdout = ''2048'' \<rparr>
                        else Inr \<lparr> ok = True, stdout = ''10'' \<rparr>) \<rparr>"

definition oversize_post_conn :: ssh_conn where
  "oversize_post_conn = quiet_conn ''s1'' \<lparr>
     run := (\<lambda>command. if command = ''stat -c %s /home/ubuntu/metrics-exchange/post-job-metrics.json''
                        then Inr \<lparr> ok = True, stdout = ''2048'' \<rparr>
                        else Inr \<lparr> ok = True, stdout = ''10'' \<rparr>) \<rparr>"




text \<open>An instance in error state, then an active one; no SSH connection can be opened.\<close>

definition unreachable_world :: world where
  "unreachable_world = quiet_world \<lparr> get_instances := [server ''s0'' ''ERROR'', server ''s1'' ''ACTIVE''] \<rparr>"


section \<open>Dictionaries\<close>

lemma foldl_update_map_of:
  "map_of (foldl (\<lambda>d kv. AList.update (fst kv) (snd kv) d) d kvs) = map_of d ++ map_of (rev kvs)"
proof (induction kvs arbitrary: d)
  case Nil
  then show ?case by simp
next
  case (Cons kv kvs)
  show ?case
    by (cases kv)
      (simp add: Cons.IH update_conv' map_add_upd_left fun_eq_iff map_add_def split: option.splits)
qed

lemma map_of_dict_of: "map_of (dict_of kvs) = map_of (rev kvs)"
  by (simp add: dict_of_def foldl_update_map_of)





lemma map_of_keyed: "map_of (map (\<lambda>x. (f x, x)) xs) k = find (\<lambda>x. f x = k) xs"
  by (induction xs) auto

text \<open>Looking a key up in a dict keyed by \<open>f\<close> finds the last element with that key.\<close>

lemma lookup_dict_of_keyed:
  "map_of (dict_of (map (\<lambda>x. (f x, x)) xs)) k = find (\<lambda>x. f x = k) (rev xs)"
  by (simp add: map_of_dict_of rev_map map_of_keyed)



section \<open>The merged view\<close>


lemma offline_loop_filter:
  "offline_loop m gs acc = acc @
     filter (\<lambda>g. \<not> reactive (shr_instance_id g) \<or>
        (\<exists>ci. map_of m (shr_instance_id g) = Some ci \<and> cloud_state ci \<noteq> CREATED
            \<and> \<not> (cloud_state ci = ACTIVE \<and> health ci = HEALTHY))) gs"
  by (induction gs arbitrary: acc) (auto split: option.splits)

text \<open>
  C1. The offline reconciliation of \<^verbatim>\<open>cleanup()\<close> reads the merged view, lists the offline
  registrations and hands the coordination-service client exactly these of them, in their
  order: every non-reactive one, and a reactive one if and only if the merged view has an
  instance with its id (the last one, were there several) and that instance is neither
  created nor active and healthy. So a reactive offline runner without cloud instance, or
  with a created or an active and healthy one, is not deleted, and one whose instance is
  active and unhealthy is.
\<close>

theorem cleanup_offline_deletes_exactly:
  "cleanup_github_offline_runners w tr =
     snd (get_runners w None None tr) @
     [GithubGetRunners (Some [OFFLINE]),
      GithubDeleteRunners
        (filter (\<lambda>g. \<not> reactive (shr_instance_id g) \<or>
            (\<exists>ci. find (\<lambda>ci. instance_id ci = shr_instance_id g)
                     (rev (fst (get_runners w None None tr))) = Some ci
               \<and> cloud_state ci \<noteq> CREATED
               \<and> \<not> (cloud_state ci = ACTIVE \<and> health ci = HEALTHY)))
          (filter (\<lambda>g. shr_state g = OFFLINE) (github_runners w)))]"
  by (simp add: cleanup_github_offline_runners_def github_get_runners_def offline_loop_filter
      lookup_dict_of_keyed split: prod.splits)

theorem cleanup_offline_deletes_exactly_witness:
  "last (cleanup_github_offline_runners offline_world [])
     = GithubDeleteRunners [offline_runner ''a'' False, offline_runner ''e'' True]"
  using cleanup_offline_deletes_exactly[of offline_world "[]"]
  by (simp add: offline_world_def quiet_world_def get_runners_def github_get_runners_def
      cloud_get_runners_def dict_of_def offline_runner_def cloud_instance_def rid_def
      RunnerInstance_init_def)




section \<open>Creating runners\<close>

lemma spawn_loop_all:
  assumes "\<forall>x\<in>set js. \<forall>e. x = Inl e \<longrightarrow> e = RunnerError" "length js \<le> n"
  shows "fst (spawn_loop n js acc tr) = Inr (acc @ map projr (filter (\<lambda>x. \<not> isl x) js))"
  using assms
  by (induction n js acc tr rule: spawn_loop.induct) simp_all

lemma enumerate_replicate:
  "map (\<lambda>(i, x). f i x) (enumerate 0 (replicate n a)) = map (\<lambda>i. f i a) [0..<n]"
  by (simp add: enumerate_eq_zip zip_replicate2 map_zip_map2 comp_def)

lemma batch_outcomes:
  "map (\<lambda>(i, args). fst (create_runner args (jobs w i) []))
     (enumerate 0 (replicate n (batch_args m w r))) = map (job_outcome m w r) [0..<n]"
  by (simp add: enumerate_replicate job_outcome_def)

lemma imap_unordered_perm:
  assumes "mset order = mset [0..<length outcomes]"
  shows "mset (imap_unordered outcomes order) = mset outcomes"
proof -
  have "set order = {0..<length outcomes}"
    using assms by (metis mset_eq_setD set_upt)
  then have "filter (\<lambda>i. i < length outcomes) order = order"
    by (auto simp: filter_id_conv)
  then have "mset (imap_unordered outcomes order) = image_mset ((!) outcomes) (mset order)"
    by (simp add: imap_unordered_def)
  also have "\<dots> = mset (map ((!) outcomes) [0..<length outcomes])"
    by (simp add: assms)
  also have "\<dots> = mset outcomes"
    by (simp add: map_nth)
  finally show ?thesis .
qed

lemma create_runners_unfold:
  "create_runners m w num r tr = spawn_runners w (replicate (nat num) (batch_args m w r)) tr"
  by (simp add: create_runners_def batch_args_def Let_def)

text \<open>
  C3. A batch of more than one creation job, of which any jobs fail with a runner error:
  whatever the order in which the jobs complete, \<^verbatim>\<open>create_runners\<close> returns to the
  caller (it raises nothing), the tuple returned is as long as the number of jobs that
  succeeded, and it holds exactly the instance ids these jobs returned.
\<close>

theorem create_runners_batch:
  assumes "1 < nat num"
    and "mset (completion_order w) = mset [0..<nat num]"
    and "\<forall>i<nat num. \<forall>e. job_outcome m w is_reactive i = Inl e \<longrightarrow> e = RunnerError"
  shows "\<exists>ids. fst (create_runners m w num is_reactive tr) = Inr ids
           \<and> length ids = length (filter (\<lambda>i. \<not> isl (job_outcome m w is_reactive i)) [0..<nat num])
           \<and> mset ids = mset (map (\<lambda>i. projr (job_outcome m w is_reactive i))
                              (filter (\<lambda>i. \<not> isl (job_outcome m w is_reactive i)) [0..<nat num]))"
proof -
  define N where "N = nat num"
  define outcomes where "outcomes = map (job_outcome m w is_reactive) [0..<N]"
  define js where "js = imap_unordered outcomes (completion_order w)"
  have len: "length outcomes = N" by (simp add: outcomes_def)
  have perm: "mset js = mset outcomes"
    unfolding js_def using assms(2) by (intro imap_unordered_perm) (simp add: len N_def)
  have lenjs: "length js = N"
    using perm len by (metis size_mset)
  have errs: "\<forall>x\<in>set js. \<forall>e. x = Inl e \<longrightarrow> e = RunnerError"
  proof -
    have "set js = set outcomes" using perm by (metis mset_eq_setD)
    then show ?thesis using assms(3) by (auto simp: outcomes_def N_def)
  qed
  have N1: "N \<noteq> 1" "\<not> min N 10 < 1"
    using assms(1) by (simp_all add: N_def)
  have run: "create_runners m w num is_reactive tr = spawn_loop N js [] tr"
    unfolding create_runners_unfold N_def[symmetric]
    using N1
    by (auto simp add: spawn_runners_def spawn_runners_using_multiprocessing_def
        batch_outcomes js_def outcomes_def Let_def min_def)
  define ids where "ids = map projr (filter (\<lambda>x. \<not> isl x) js)"
  have res: "fst (create_runners m w num is_reactive tr) = Inr ids"
    using spawn_loop_all[OF errs, of N "[]" tr] lenjs by (simp add: run ids_def)
  have m1: "mset ids = image_mset projr (filter_mset (\<lambda>x. \<not> isl x) (mset outcomes))"
    by (simp add: ids_def perm[symmetric])
  have m2: "mset (map (\<lambda>i. projr (job_outcome m w is_reactive i))
                 (filter (\<lambda>i. \<not> isl (job_outcome m w is_reactive i)) [0..<N]))
            = image_mset projr (filter_mset (\<lambda>x. \<not> isl x) (mset outcomes))"
    by (simp add: outcomes_def filter_map comp_def flip: mset_filter mset_map)
  have l1: "length ids = size (filter_mset (\<lambda>x. \<not> isl x) (mset outcomes))"
    using m1 by (metis size_mset size_image_mset)
  have l2: "length (filter (\<lambda>i. \<not> isl (job_outcome m w is_reactive i)) [0..<N])
            = size (filter_mset (\<lambda>x. \<not> isl x) (mset outcomes))"
    using m2 by (metis size_mset size_image_mset length_map)
  show ?thesis using res m1 m2 l1 l2 unfolding N_def by auto
qed

theorem create_runners_batch_witness:
  "1 < nat 3 \<and> mset (completion_order batch_world) = mset [0..<nat 3]
   \<and> (\<exists>ids. fst (create_runners pool_manager batch_world 3 False []) = Inr ids \<and> length ids = 2)"
proof -
  have h1: "1 < nat 3" by simp
  have h2: "mset (completion_order batch_world) = mset [0..<nat 3]"
    by (simp add: batch_world_def upt_rec)
  have o: "job_outcome pool_manager batch_world False 0 = Inr (rid ''r'' False)"
     "job_outcome pool_manager batch_world False (Suc 0) = Inl RunnerError"
     "job_outcome pool_manager batch_world False (Suc (Suc 0)) = Inr (rid ''rrr'' False)"
    by (simp_all add: job_outcome_def create_runner_def batch_world_def quiet_world_def
        failing_job_def InstanceID_build_def rid_def batch_args_def Let_def numeral_3_eq_3)
  have h3: "\<forall>i<nat 3. \<forall>e. job_outcome pool_manager batch_world False i = Inl e \<longrightarrow> e = RunnerError"
    using o by (auto simp: less_Suc_eq numeral_3_eq_3 numeral_2_eq_2)
  have "length (filter (\<lambda>i. \<not> isl (job_outcome pool_manager batch_world False i)) [0..<nat 3]) = 2"
    using o by (simp add: upt_rec numeral_3_eq_3)
  with create_runners_batch[OF h1 h2 h3, of "[]"] h1 h2 show ?thesis by auto
qed

text \<open>
  C4, as the code has it. A batch of one job runs inline: the job starts from the caller's
  trace and its actions are the caller's. The instance id of a job that succeeds is
  returned; a runner error of the job is caught and logged and the empty tuple is returned;
  any other error reaches the caller.
\<close>

theorem single_job_inline:
  "(\<forall>iid tr'. create_runner (batch_args m w is_reactive) (jobs w 0) tr = (Inr iid, tr')
       \<longrightarrow> create_runners m w 1 is_reactive tr = (Inr [iid], tr'))
   \<and> (\<forall>tr'. create_runner (batch_args m w is_reactive) (jobs w 0) tr = (Inl RunnerError, tr')
       \<longrightarrow> create_runners m w 1 is_reactive tr
            = (Inr [], tr' @ [LogException ''Failed to spawn a runner.'']))
   \<and> (\<forall>e tr'. create_runner (batch_args m w is_reactive) (jobs w 0) tr = (Inl e, tr') \<and> e \<noteq> RunnerError
       \<longrightarrow> create_runners m w 1 is_reactive tr = (Inl e, tr'))"
  by (simp add: create_runners_unfold spawn_runners_def)

theorem single_job_inline_witness:
  "create_runners pool_manager failing_world 1 False []
     = (Inr [], [GithubGetRegistrationJittoken (rid ''r'' False) [''large'', ''self-hosted'', ''linux'', ''x64''],
       CloudCreateRunner (rid ''r'' False) ''jit'',
       GithubDeleteRunners [offline_runner ''r'' False], LogException ''Failed to spawn a runner.''])"
proof -
  have "create_runner (batch_args pool_manager failing_world False) (jobs failing_world 0) []
     = (Inl RunnerError, [GithubGetRegistrationJittoken (rid ''r'' False) [''large'', ''self-hosted'', ''linux'', ''x64''],
       CloudCreateRunner (rid ''r'' False) ''jit'',
       GithubDeleteRunners [offline_runner ''r'' False]])"
    by (simp add: create_runner_def failing_world_def quiet_world_def failing_job_def batch_args_def
        pool_manager_def InstanceID_build_def rid_def Let_def)
  with single_job_inline[of pool_manager failing_world False "[]"] show ?thesis by simp
qed

text \<open>C4 as stated fails: the only job of the batch raises a runner error, and
  \<^verbatim>\<open>create_runners\<close> returns the empty tuple to its caller.\<close>

theorem single_job_error_swallowed:
  "job_outcome pool_manager failing_world False 0 = Inl RunnerError
   \<and> fst (create_runners pool_manager failing_world 1 False []) = Inr []"
  by (simp add: job_outcome_def create_runners_def spawn_runners_def create_runner_def
      failing_world_def quiet_world_def failing_job_def batch_args_def Let_def)


text \<open>
  C10. When the cloud-side \<^verbatim>\<open>create_runner\<close> raises a runner error after the
  registration token was obtained, \<^verbatim>\<open>_create_runner\<close> asks the coordination service to
  delete the registration it has just been given, and only then does the error leave the
  function.
\<close>

theorem create_runner_failure_unregisters:
  assumes "registration_jittoken jw = Inr (jittoken, github_runner)"
    and "cloud_create_runner jw = Some RunnerError"
  shows "create_runner args jw tr =
     (Inl RunnerError,
      tr @ [GithubGetRegistrationJittoken
              (InstanceID_build (cra_name_prefix args) (cra_reactive args) (minted_name jw))
              (cra_labels args),
            CloudCreateRunner
              (InstanceID_build (cra_name_prefix args) (cra_reactive args) (minted_name jw))
              jittoken,
            GithubDeleteRunners [github_runner]])"
  using assms by (simp add: create_runner_def Let_def)

theorem create_runner_failure_unregisters_witness:
  "registration_jittoken (failing_job ''r'') = Inr (''jit'', offline_runner ''r'' False)
   \<and> cloud_create_runner (failing_job ''r'') = Some RunnerError
   \<and> create_runner (batch_args pool_manager quiet_world True) (failing_job ''r'') [] =
     (Inl RunnerError,
      [GithubGetRegistrationJittoken (rid ''r'' True) [''large'', ''self-hosted'', ''linux'', ''x64''],
       CloudCreateRunner (rid ''r'' True) ''jit'',
       GithubDeleteRunners [offline_runner ''r'' False]])"
proof -
  have h1: "registration_jittoken (failing_job ''r'') = Inr (''jit'', offline_runner ''r'' False)"
    by (simp add: failing_job_def)
  have h2: "cloud_create_runner (failing_job ''r'') = Some RunnerError"
    by (simp add: failing_job_def)
  from create_runner_failure_unregisters[OF h1 h2, of "batch_args pool_manager quiet_world True" "[]"] h1 h2
  show ?thesis
    by (simp add: batch_args_def pool_manager_def quiet_world_def InstanceID_build_def rid_def
        failing_job_def)
qed



section \<open>Flushing\<close>

lemma metrics_event_simps [simp]:
  "metrics_event (GithubJob n)" "metrics_event (IssueEvents i)" "metrics_event (LogException s)"
  by (simp_all add: metrics_event_def)

lemma issue_runner_metrics_trace:
  "\<exists>evs. snd (issue_runner_metrics m w ms st tr) = tr @ evs \<and> list_all metrics_event evs"
proof (induction ms arbitrary: st tr)
  case Nil
  then show ?case by simp
next
  case (Cons x ms)
  let ?n = "iid_name (rm_instance_id x)"
  let ?st = "\<lambda>j. (\<lambda>event_type. if event_type \<in> issue_events w x j (manager_name m) then st event_type + 1 else st event_type)"
  show ?case
  proof (cases "pre_job x")
    case None
    from Cons.IH[of "?st None" "tr @ [IssueEvents (rm_instance_id x)]"]
    obtain evs where "snd (issue_runner_metrics m w ms (?st None) (tr @ [IssueEvents (rm_instance_id x)]))
        = (tr @ [IssueEvents (rm_instance_id x)]) @ evs" "list_all metrics_event evs" by blast
    then show ?thesis using None
      by (intro exI[of _ "IssueEvents (rm_instance_id x) # evs"]) (simp add: Let_def)
  next
    case (Some pre)
    show ?thesis
    proof (cases "github_job w pre ?n")
      case None
      from Cons.IH[of "?st None" "tr @ [GithubJob ?n, LogException ''Failed to calculate job metrics''] @ [IssueEvents (rm_instance_id x)]"]
      obtain evs where "snd (issue_runner_metrics m w ms (?st None) (tr @ [GithubJob ?n, LogException ''Failed to calculate job metrics''] @ [IssueEvents (rm_instance_id x)]))
        = (tr @ [GithubJob ?n, LogException ''Failed to calculate job metrics''] @ [IssueEvents (rm_instance_id x)]) @ evs" "list_all metrics_event evs" by blast
      then show ?thesis using None Some
        by (intro exI[of _ "[GithubJob ?n, LogException ''Failed to calculate job metrics'', IssueEvents (rm_instance_id x)] @ evs"])
           (simp add: Let_def)
    next
      case (Some job)
      from Cons.IH[of "?st (Some job)" "tr @ [GithubJob ?n] @ [IssueEvents (rm_instance_id x)]"]
      obtain evs where "snd (issue_runner_metrics m w ms (?st (Some job)) (tr @ [GithubJob ?n] @ [IssueEvents (rm_instance_id x)]))
        = (tr @ [GithubJob ?n] @ [IssueEvents (rm_instance_id x)]) @ evs" "list_all metrics_event evs" by blast
      then show ?thesis using Some \<open>pre_job x = Some pre\<close>
        by (intro exI[of _ "[GithubJob ?n, IssueEvents (rm_instance_id x)] @ evs"])
           (simp add: Let_def)
    qed
  qed
qed

text \<open>
  C9. \<^verbatim>\<open>flush_runners\<close> obtains one removal token and calls the cloud runner manager's
  flush once, with that token and the flag "include busy": false for
  \<^verbatim>\<open>FLUSH_IDLE\<close>, true for \<^verbatim>\<open>FLUSH_BUSY\<close>. Which instances go is left to the cloud
  runner manager; what follows in the trace is the issuance of the metrics it returned.
\<close>

theorem flush_runners_delegates:
  "(\<exists>evs. flush_runners m w FLUSH_IDLE tr =
            (fst (issue_runner_metrics m w (cloud_flush w False) (\<lambda>event_type. 0)
                    (tr @ [GithubGetRemovalToken, CloudFlushRunners (removal_token w) False])),
             tr @ [GithubGetRemovalToken, CloudFlushRunners (removal_token w) False] @ evs)
          \<and> list_all metrics_event evs)
   \<and> (\<exists>evs. flush_runners m w FLUSH_BUSY tr =
            (fst (issue_runner_metrics m w (cloud_flush w True) (\<lambda>event_type. 0)
                    (tr @ [GithubGetRemovalToken, CloudFlushRunners (removal_token w) True])),
             tr @ [GithubGetRemovalToken, CloudFlushRunners (removal_token w) True] @ evs)
          \<and> list_all metrics_event evs)"
proof -
  have gen: "\<exists>evs. issue_runner_metrics m w (cloud_flush w b) (\<lambda>event_type. 0)
                    (tr @ [GithubGetRemovalToken, CloudFlushRunners (removal_token w) b]) =
            (fst (issue_runner_metrics m w (cloud_flush w b) (\<lambda>event_type. 0)
                    (tr @ [GithubGetRemovalToken, CloudFlushRunners (removal_token w) b])),
             tr @ [GithubGetRemovalToken, CloudFlushRunners (removal_token w) b] @ evs)
          \<and> list_all metrics_event evs" for b
  proof -
    obtain evs where "snd (issue_runner_metrics m w (cloud_flush w b) (\<lambda>event_type. 0)
                    (tr @ [GithubGetRemovalToken, CloudFlushRunners (removal_token w) b]))
        = (tr @ [GithubGetRemovalToken, CloudFlushRunners (removal_token w) b]) @ evs"
       "list_all metrics_event evs"
      using issue_runner_metrics_trace by blast
    then show ?thesis
      by (intro exI[of _ evs]) (simp add: prod_eq_iff)
  qed
  have idle: "flush_runners m w FLUSH_IDLE tr =
      issue_runner_metrics m w (cloud_flush w False) (\<lambda>event_type. 0)
        (tr @ [GithubGetRemovalToken, CloudFlushRunners (removal_token w) False])"
    by (simp add: flush_runners_def Let_def)
  have busy: "flush_runners m w FLUSH_BUSY tr =
      issue_runner_metrics m w (cloud_flush w True) (\<lambda>event_type. 0)
        (tr @ [GithubGetRemovalToken, CloudFlushRunners (removal_token w) True])"
    by (simp add: flush_runners_def Let_def)
  show ?thesis unfolding idle busy using gen[of False] gen[of True] by blast
qed

theorem flush_runners_delegates_witness:
  "flush_runners pool_manager quiet_world FLUSH_IDLE []
     = (\<lambda>event_type. 0, [GithubGetRemovalToken, CloudFlushRunners ''remove-token'' False])
   \<and> snd (flush_runners pool_manager quiet_world FLUSH_BUSY [])
     = [GithubGetRemovalToken, CloudFlushRunners ''remove-token'' True]"
  using flush_runners_delegates[of pool_manager quiet_world "[]"]
  by (simp add: flush_runners_def quiet_world_def)

section \<open>Traces of the cloud runner manager\<close>

lemma io_event_simps [simp]:
  "io_event (SshRun h c)" "io_event (SshGet h r l)" "io_event (LogException s)"
  "io_event (LogWarning s)" "\<not> io_event (MetricsStorageGet n)" "\<not> io_event (DeleteInstance i)"
  "\<not> io_event (GetSshConnection n)" "\<not> io_event (GetInstance i)"
  "\<not> io_event GithubGetRemovalToken" "\<not> io_event OpenstackCleanup"
  by (simp_all add: io_event_def)

lemma ssh_pull_file_shape:
  "\<exists>evs. snd (ssh_pull_file w ssh r l mx tr) = tr @ evs \<and> list_all io_event evs
     \<and> (fst (ssh_pull_file w ssh r l mx tr) = Inr ()
        \<or> fst (ssh_pull_file w ssh r l mx tr) = Inl SshError
        \<or> fst (ssh_pull_file w ssh r l mx tr) = Inl PullFileError)"
  by (auto simp: ssh_pull_file_def Let_def split: sum.splits option.splits get_error.splits)

lemma pull_runner_metrics_shape:
  "\<exists>evs. snd (pull_runner_metrics w n ssh tr) = tr @ MetricsStorageGet n # evs
     \<and> list_all io_event evs
     \<and> (fst (pull_runner_metrics w n ssh tr) = Inr ()
        \<or> fst (pull_runner_metrics w n ssh tr) = Inl SshError)"
proof (cases "metrics_storage_get w n")
  case None
  then show ?thesis by (simp add: pull_runner_metrics_def Let_def)
next
  case (Some p)
  let ?pre = "ssh_pull_file w ssh (METRICS_EXCHANGE_PATH @ ''/pre-job-metrics.json'')
                     (p @ ''/pre-job-metrics.json'') MAX_METRICS_FILE_SIZE (tr @ [MetricsStorageGet n])"
  obtain e1 where e1: "snd ?pre = (tr @ [MetricsStorageGet n]) @ e1" "list_all io_event e1"
    and r1: "fst ?pre = Inr () \<or> fst ?pre = Inl SshError \<or> fst ?pre = Inl PullFileError"
    using ssh_pull_file_shape by blast
  let ?post = "ssh_pull_file w ssh (METRICS_EXCHANGE_PATH @ ''/post-job-metrics.json'')
                     (p @ ''/post-job-metrics.json'') MAX_METRICS_FILE_SIZE (snd ?pre)"
  obtain e2 where e2: "snd ?post = snd ?pre @ e2" "list_all io_event e2"
    and r2: "fst ?post = Inr () \<or> fst ?post = Inl SshError \<or> fst ?post = Inl PullFileError"
    using ssh_pull_file_shape by blast
  obtain a1 t1 where p1: "?pre = (a1, t1)" by (cases ?pre)
  obtain a2 t2 where p2: "ssh_pull_file w ssh (METRICS_EXCHANGE_PATH @ ''/post-job-metrics.json'')
                     (p @ ''/post-job-metrics.json'') MAX_METRICS_FILE_SIZE t1 = (a2, t2)"
    by (cases "ssh_pull_file w ssh (METRICS_EXCHANGE_PATH @ ''/post-job-metrics.json'')
                     (p @ ''/post-job-metrics.json'') MAX_METRICS_FILE_SIZE t1")
  from e1 r1 p1 have t1: "t1 = tr @ MetricsStorageGet n # e1"
    and a1: "a1 = Inr () \<or> a1 = Inl SshError \<or> a1 = Inl PullFileError" by simp_all
  from e2 r2 p1 p2 have t2: "t2 = t1 @ e2"
    and a2: "a2 = Inr () \<or> a2 = Inl SshError \<or> a2 = Inl PullFileError" by simp_all
  show ?thesis
    using a1 a2 e1(2) e2(2)
    by (auto simp: pull_runner_metrics_def Let_def Some p1 p2) (auto simp: t1 t2)
qed

lemma removal_script_shape:
  "\<exists>evs. snd (run_github_runner_removal_script n ssh tok tr) = tr @ evs \<and> list_all io_event evs
     \<and> (fst (run_github_runner_removal_script n ssh tok tr) = Inr ()
        \<or> fst (run_github_runner_removal_script n ssh tok tr) = Inl GithubRunnerRemoveError)"
  by (auto simp: run_github_runner_removal_script_def Let_def split: sum.splits)

lemma delete_runner_priv_shape:
  "\<exists>rest logs. delete_runner_priv w inst tok tr =
       (Inr (), tr @ [GetSshConnection (server_name inst)]
                   @ (case get_ssh_connection w tr inst of None \<Rightarrow> []
                      | Some ssh \<Rightarrow> [MetricsStorageGet (server_name inst)])
                   @ rest @ [DeleteInstance (os_instance_id inst)] @ logs)
     \<and> list_all io_event rest \<and> list_all io_event logs"
proof (cases "get_ssh_connection w tr inst")
  case None
  show ?thesis
    by (rule exI[of _ "[LogException ''Failed to get SSH connection while removing'',
                        LogWarning ''Skipping runner remove script due to SSH issues'']"],
        rule exI[of _ "if delete_instance w (os_instance_id inst) then []
                       else [LogException ''Unable to delete openstack instance'']"])
       (simp add: delete_runner_priv_def Let_def None)
next
  case (Some ssh)
  let ?n = "server_name inst"
  let ?tr1 = "tr @ [GetSshConnection ?n]"
  obtain a1 t1 where p1: "pull_runner_metrics w ?n ssh ?tr1 = (a1, t1)"
    by (cases "pull_runner_metrics w ?n ssh ?tr1")
  obtain e1 where t1: "t1 = ?tr1 @ MetricsStorageGet ?n # e1" and e1: "list_all io_event e1"
    and a1: "a1 = Inr () \<or> a1 = Inl SshError"
    using pull_runner_metrics_shape[of w ?n ssh ?tr1] p1 by auto
  obtain a2 t2 where p2: "run_github_runner_removal_script ?n ssh tok t1 = (a2, t2)"
    by (cases "run_github_runner_removal_script ?n ssh tok t1")
  obtain e2 where t2: "t2 = t1 @ e2" and e2: "list_all io_event e2"
    and a2: "a2 = Inr () \<or> a2 = Inl GithubRunnerRemoveError"
    using removal_script_shape[of ?n ssh tok t1] p2 by auto
  let ?logs = "if delete_instance w (os_instance_id inst) then []
                       else [LogException ''Unable to delete openstack instance'']"
  from a1 show ?thesis
  proof
    assume a: "a1 = Inl SshError"
    show ?thesis
      by (rule exI[of _ "e1 @ [LogException ''Failed to get SSH connection while removing'',
                        LogWarning ''Skipping runner remove script due to SSH issues'']"],
          rule exI[of _ ?logs])
         (simp add: delete_runner_priv_def Let_def Some p1 a, simp add: t1 e1)
  next
    assume a: "a1 = Inr ()"
    from a2 show ?thesis
    proof
      assume b: "a2 = Inr ()"
      show ?thesis
        by (rule exI[of _ "e1 @ e2"], rule exI[of _ ?logs])
           (simp add: delete_runner_priv_def Let_def Some p1 p2 a b, simp add: t1 t2 e1 e2)
    next
      assume b: "a2 = Inl GithubRunnerRemoveError"
      show ?thesis
        by (rule exI[of _ "e1 @ e2 @ [LogWarning ''Unable to run github runner removal script'']"],
            rule exI[of _ ?logs])
           (simp add: delete_runner_priv_def Let_def Some p1 p2 a b, simp add: t1 t2 e1 e2)
    qed
  qed
qed

lemma delete_runner_priv_trace:
  "\<exists>seg. delete_runner_priv w inst tok tr = (Inr (), tr @ seg) \<and> deletion_trace w inst seg"
proof -
  obtain rest logs where eq: "delete_runner_priv w inst tok tr =
       (Inr (), tr @ [GetSshConnection (server_name inst)]
                   @ (case get_ssh_connection w tr inst of None \<Rightarrow> []
                      | Some ssh \<Rightarrow> [MetricsStorageGet (server_name inst)])
                   @ rest @ [DeleteInstance (os_instance_id inst)] @ logs)"
    and io: "list_all io_event rest" "list_all io_event logs"
    using delete_runner_priv_shape by blast
  let ?pulled = "case get_ssh_connection w tr inst of None \<Rightarrow> []
                      | Some ssh \<Rightarrow> [MetricsStorageGet (server_name inst)]"
  have "deletion_trace w inst ([GetSshConnection (server_name inst)] @ ?pulled @ rest
           @ [DeleteInstance (os_instance_id inst)] @ logs)"
    unfolding deletion_trace_def
    by (rule exI[of _ ?pulled], rule exI[of _ rest], rule exI[of _ logs])
       (cases "get_ssh_connection w tr inst"; use io in auto)
  with eq show ?thesis by auto
qed

lemma delete_unhealthy_trace:
  "\<exists>segs. delete_unhealthy w rs tok tr = (Inr (), tr @ concat segs)
     \<and> list_all2 (deletion_trace w) rs segs"
proof (induction rs arbitrary: tr)
  case Nil
  then show ?case by simp
next
  case (Cons r rs)
  obtain seg where s: "delete_runner_priv w r tok tr = (Inr (), tr @ seg)" "deletion_trace w r seg"
    using delete_runner_priv_trace by blast
  obtain segs where ss: "delete_unhealthy w rs tok (tr @ seg) = (Inr (), (tr @ seg) @ concat segs)"
    "list_all2 (deletion_trace w) rs segs"
    using Cons.IH by blast
  show ?case
    by (rule exI[of _ "seg # segs"]) (simp add: s ss)
qed

lemma delete_runner_trace:
  "\<exists>seg mo. delete_runner w iid tok tr = (Inr mo, tr @ GetInstance iid # seg)
     \<and> deletion_trace w (get_instance w iid) seg"
proof -
  obtain seg where s: "delete_runner_priv w (get_instance w iid) tok (tr @ [GetInstance iid])
      = (Inr (), (tr @ [GetInstance iid]) @ seg)" "deletion_trace w (get_instance w iid) seg"
    using delete_runner_priv_trace by blast
  show ?thesis
    by (rule exI[of _ seg]) (auto simp: delete_runner_def Let_def s split: list.splits)
qed


lemma probe_event_simps [simp]:
  "probe_event (SshRun h c)" "probe_event (GetSshConnection n)" "probe_event (LogException s)"
  "probe_event (LogWarning s)" "probe_event (Sleep d)"
  by (simp_all add: probe_event_def)






section \<open>Deleting runners and cleaning up\<close>
















text \<open>
  C7 does not hold of the code. An instance in error state is followed by an active
  instance to which no SSH connection can be opened. The probe of the second tries three
  times, waiting 5 and then 10 seconds, and its \<^verbatim>\<open>SshError\<close> leaves
  \<^verbatim>\<open>_get_runner_health\<close>, the cloud-side cleanup and \<^verbatim>\<open>RunnerManager.cleanup\<close>: no
  instance is classified and none is deleted, the first one included.
\<close>

theorem cleanup_aborts_on_ssh_exhaustion:
  "openstack_cleanup unreachable_world ''remove-token'' [] =
     (Inl SshError,
      [GetInstances,
       GetSshConnection ''s1'', LogException ''SSH connection failure during health check'', Sleep 5,
       GetSshConnection ''s1'', LogException ''SSH connection failure during health check'', Sleep 10,
       GetSshConnection ''s1'', LogException ''SSH connection failure during health check''])
   \<and> fst (cleanup pool_manager unreachable_world []) = Inl SshError
   \<and> (\<forall>i. DeleteInstance i \<notin> set (snd (cleanup pool_manager unreachable_world [])))"
  by (simp add: cleanup_def openstack_cleanup_def get_runner_health_def health_check_def
      health_check_attempt_def unreachable_world_def quiet_world_def server_def numeral_3_eq_3
      cleanup_github_offline_runners_def get_runners_def github_get_runners_def
      cloud_get_runners_def dict_of_def Let_def)

text \<open>
  C8, as the code has it. A metrics file longer than 1024 bytes is skipped and the pull
  returns normally. When it is the pre-job file, the pull ends there with a warning: the
  post-job file is not asked for. When the pre-job file has been pulled and the post-job
  file is too long, the pull ends with the warning after the pre-job transfer. The pull
  ends normally or with \<^verbatim>\<open>SshError\<close>, and neither fails a deletion: \<^verbatim>\<open>_delete_runner\<close>
  returns normally and asks the provider to delete the instance, and so do
  \<^verbatim>\<open>delete_runner\<close> and the deletion loop of the cleanup.
\<close>

theorem metrics_pull_oversize:
  "(\<forall>p res sz.
       metrics_storage_get w n = Some p
       \<and> run ssh (''stat -c %s '' @ METRICS_EXCHANGE_PATH @ ''/pre-job-metrics.json'') = Inr res
       \<and> ok res \<and> int_of_str w (stdout res) = Some sz \<and> 1024 < sz
       \<longrightarrow> pull_runner_metrics w n ssh tr =
             (Inr (), tr @ [MetricsStorageGet n,
                            SshRun (host ssh) (''stat -c %s '' @ METRICS_EXCHANGE_PATH @ ''/pre-job-metrics.json''),
                            LogWarning ''Failed to pull metrics'']))
   \<and> (\<forall>p res1 sz1 res2 sz2.
       metrics_storage_get w n = Some p
       \<and> run ssh (''stat -c %s '' @ METRICS_EXCHANGE_PATH @ ''/pre-job-metrics.json'') = Inr res1
       \<and> ok res1 \<and> int_of_str w (stdout res1) = Some sz1 \<and> sz1 \<le> 1024
       \<and> get ssh (METRICS_EXCHANGE_PATH @ ''/pre-job-metrics.json'') (p @ ''/pre-job-metrics.json'') = None
       \<and> run ssh (''stat -c %s '' @ METRICS_EXCHANGE_PATH @ ''/post-job-metrics.json'') = Inr res2
       \<and> ok res2 \<and> int_of_str w (stdout res2) = Some sz2 \<and> 1024 < sz2
       \<longrightarrow> pull_runner_metrics w n ssh tr =
             (Inr (), tr @ [MetricsStorageGet n,
                            SshRun (host ssh) (''stat -c %s '' @ METRICS_EXCHANGE_PATH @ ''/pre-job-metrics.json''),
                            SshGet (host ssh) (METRICS_EXCHANGE_PATH @ ''/pre-job-metrics.json'')
                              (p @ ''/pre-job-metrics.json''),
                            SshRun (host ssh) (''stat -c %s '' @ METRICS_EXCHANGE_PATH @ ''/post-job-metrics.json''),
                            LogWarning ''Failed to pull metrics'']))
   \<and> (fst (pull_runner_metrics w n ssh tr) = Inr () \<or> fst (pull_runner_metrics w n ssh tr) = Inl SshError)
   \<and> fst (delete_runner_priv w inst tok tr) = Inr ()
   \<and> DeleteInstance (os_instance_id inst) \<in> set (snd (delete_runner_priv w inst tok tr))
   \<and> (\<exists>mo. fst (delete_runner w iid tok tr) = Inr mo)
   \<and> fst (delete_unhealthy w rs tok tr) = Inr ()"
proof -
  have a: "\<forall>p res sz.
       metrics_storage_get w n = Some p
       \<and> run ssh (''stat -c %s '' @ METRICS_EXCHANGE_PATH @ ''/pre-job-metrics.json'') = Inr res
       \<and> ok res \<and> int_of_str w (stdout res) = Some sz \<and> 1024 < sz
       \<longrightarrow> pull_runner_metrics w n ssh tr =
             (Inr (), tr @ [MetricsStorageGet n,
                            SshRun (host ssh) (''stat -c %s '' @ METRICS_EXCHANGE_PATH @ ''/pre-job-metrics.json''),
                            LogWarning ''Failed to pull metrics''])"
    by (simp add: pull_runner_metrics_def ssh_pull_file_def MAX_METRICS_FILE_SIZE_def Let_def)
  have b: "\<forall>p res1 sz1 res2 sz2.
       metrics_storage_get w n = Some p
       \<and> run ssh (''stat -c %s '' @ METRICS_EXCHANGE_PATH @ ''/pre-job-metrics.json'') = Inr res1
       \<and> ok res1 \<and> int_of_str w (stdout res1) = Some sz1 \<and> sz1 \<le> 1024
       \<and> get ssh (METRICS_EXCHANGE_PATH @ ''/pre-job-metrics.json'') (p @ ''/pre-job-metrics.json'') = None
       \<and> run ssh (''stat -c %s '' @ METRICS_EXCHANGE_PATH @ ''/post-job-metrics.json'') = Inr res2
       \<and> ok res2 \<and> int_of_str w (stdout res2) = Some sz2 \<and> 1024 < sz2
       \<longrightarrow> pull_runner_metrics w n ssh tr =
             (Inr (), tr @ [MetricsStorageGet n,
                            SshRun (host ssh) (''stat -c %s '' @ METRICS_EXCHANGE_PATH @ ''/pre-job-metrics.json''),
                            SshGet (host ssh) (METRICS_EXCHANGE_PATH @ ''/pre-job-metrics.json'')
                              (p @ ''/pre-job-metrics.json''),
                            SshRun (host ssh) (''stat -c %s '' @ METRICS_EXCHANGE_PATH @ ''/post-job-metrics.json''),
                            LogWarning ''Failed to pull metrics''])"
    by (simp add: pull_runner_metrics_def ssh_pull_file_def MAX_METRICS_FILE_SIZE_def Let_def)
  have c: "fst (pull_runner_metrics w n ssh tr) = Inr () \<or> fst (pull_runner_metrics w n ssh tr) = Inl SshError"
    using pull_runner_metrics_shape by blast
  obtain seg where d: "delete_runner_priv w inst tok tr = (Inr (), tr @ seg)" "deletion_trace w inst seg"
    using delete_runner_priv_trace by blast
  have d1: "fst (delete_runner_priv w inst tok tr) = Inr ()" by (simp add: d)
  have d2: "DeleteInstance (os_instance_id inst) \<in> set (snd (delete_runner_priv w inst tok tr))"
    using d(2) by (auto simp: d(1) deletion_trace_def)
  have e: "\<exists>mo. fst (delete_runner w iid tok tr) = Inr mo"
    using delete_runner_trace[of w iid tok tr] by auto
  have f: "fst (delete_unhealthy w rs tok tr) = Inr ()"
    using delete_unhealthy_trace[of w rs tok tr] by auto
  show ?thesis using a b c d1 d2 e f by blast
qed

theorem metrics_pull_oversize_witness:
  "pull_runner_metrics quiet_world ''s1'' oversize_post_conn [] =
     (Inr (), [MetricsStorageGet ''s1'',
               SshRun ''s1'' ''stat -c %s /home/ubuntu/metrics-exchange/pre-job-metrics.json'',
               SshGet ''s1'' ''/home/ubuntu/metrics-exchange/pre-job-metrics.json''
                 ''/metrics/s1/pre-job-metrics.json'',
               SshRun ''s1'' ''stat -c %s /home/ubuntu/metrics-exchange/post-job-metrics.json'',
               LogWarning ''Failed to pull metrics''])"
proof -
  have h: "metrics_storage_get quiet_world ''s1'' = Some ''/metrics/s1''
       \<and> run oversize_post_conn (''stat -c %s '' @ METRICS_EXCHANGE_PATH @ ''/pre-job-metrics.json'')
            = Inr \<lparr> ok = True, stdout = ''10'' \<rparr>
       \<and> ok \<lparr> ok = True, stdout = ''10'' \<rparr>
       \<and> int_of_str quiet_world (stdout \<lparr> ok = True, stdout = ''10'' \<rparr>) = Some 10 \<and> (10::int) \<le> 1024
       \<and> get oversize_post_conn (METRICS_EXCHANGE_PATH @ ''/pre-job-metrics.json'')
            (''/metrics/s1'' @ ''/pre-job-metrics.json'') = None
       \<and> run oversize_post_conn (''stat -c %s '' @ METRICS_EXCHANGE_PATH @ ''/post-job-metrics.json'')
            = Inr \<lparr> ok = True, stdout = ''2048'' \<rparr>
       \<and> ok \<lparr> ok = True, stdout = ''2048'' \<rparr>
       \<and> int_of_str quiet_world (stdout \<lparr> ok = True, stdout = ''2048'' \<rparr>) = Some 2048 \<and> (1024::int) < 2048"
    by (simp add: quiet_world_def oversize_post_conn_def quiet_conn_def METRICS_EXCHANGE_PATH_def)
  have "pull_runner_metrics quiet_world ''s1'' oversize_post_conn [] =
      (Inr (), [] @ [MetricsStorageGet ''s1'',
                            SshRun (host oversize_post_conn) (''stat -c %s '' @ METRICS_EXCHANGE_PATH @ ''/pre-job-metrics.json''),
                            SshGet (host oversize_post_conn) (METRICS_EXCHANGE_PATH @ ''/pre-job-metrics.json'')
                              (''/metrics/s1'' @ ''/pre-job-metrics.json''),
                            SshRun (host oversize_post_conn) (''stat -c %s '' @ METRICS_EXCHANGE_PATH @ ''/post-job-metrics.json''),
                            LogWarning ''Failed to pull metrics''])"
    using metrics_pull_oversize[of quiet_world "''s1''" oversize_post_conn "[]"] h by blast
  then show ?thesis
    by (simp add: oversize_post_conn_def quiet_conn_def METRICS_EXCHANGE_PATH_def)
qed

text \<open>C8 as stated fails: the pre-job file is 2048 bytes long and the post-job file 10;
  the pull stops at the pre-job file and never asks for the post-job file.\<close>

theorem oversize_pre_job_skips_post_job:
  "pull_runner_metrics quiet_world ''s1'' oversize_pre_conn [] =
     (Inr (), [MetricsStorageGet ''s1'',
               SshRun ''s1'' ''stat -c %s /home/ubuntu/metrics-exchange/pre-job-metrics.json'',
               LogWarning ''Failed to pull metrics''])"
  by (simp add: pull_runner_metrics_def ssh_pull_file_def quiet_world_def oversize_pre_conn_def
      quiet_conn_def METRICS_EXCHANGE_PATH_def MAX_METRICS_FILE_SIZE_def Let_def)

end
